theory Spec2Isabelle
  imports Complex_Main
begin

section \<open>The calculator's expression trees (expr.py)\<close>

subsection \<open>Exceptions\<close>

text \<open>
  The exceptions that the module can raise while a tree is built or evaluated:
  \<^item> \<open>UndefinedVariable\<close> is the module's own exception class; it carries the message
    built in \<open>Var.eval\<close>. The specification calls it UndefinedVariableError.
  \<^item> \<open>ZeroDivisionError\<close> is what Python's \<open>//\<close> raises for a zero divisor. The
    specification calls it DivisionByZeroError.
  \<^item> \<open>AssertionError\<close> is what the \<open>assert\<close> in \<open>Assign.__init__\<close> raises. The
    specification calls it InvalidAssignmentTargetError.
  \<^item> \<open>AttributeError\<close> is what \<open>self.left.assign(r_val)\<close> would raise on a left
    operand without an \<open>assign\<close> method; \<open>Assign.__init__\<close> never lets such a node
    exist, the branch is only there to keep evaluation total on the datatype.
\<close>

datatype error =
    UndefinedVariable string
  | ZeroDivisionError
  | AssertionError
  | AttributeError

subsection \<open>Expression nodes\<close>

text \<open>
  One constructor for each concrete class of the module. The abstract classes \<open>Expr\<close>,
  \<open>BinOp\<close> and \<open>UnOp\<close> only hold code shared by their subclasses and are not nodes of
  their own. \<open>value_of\<close> is the field \<open>value\<close> of an \<open>IntConst\<close>.
\<close>

datatype expr =
    IntConst (value_of: int)
  | Plus expr expr
  | Minus expr expr
  | Times expr expr
  | Div expr expr
  | Abs expr
  | Neg expr
  | Var string
  | Assign expr expr

text \<open>
  \<open>Assign.__init__\<close>: \<open>assert isinstance(left, Var)\<close>, then the fields are stored. This
  is the only way the module builds an \<open>Assign\<close> node.
\<close>

definition Assign_init :: "expr \<Rightarrow> expr \<Rightarrow> error + expr" where
  "Assign_init left right =
     (case left of
        Var name \<Rightarrow> Inr (Assign left right)
      | _ \<Rightarrow> Inl AssertionError)"

text \<open>
  The field \<open>symbol\<close>, as the \<open>__init__\<close> of each concrete operator class passes it to
  \<open>BinOp.__init__\<close> or \<open>UnOp.__init__\<close>. The other classes have no such field.
\<close>

fun symbol :: "expr \<Rightarrow> string" where
  "symbol (Plus left right) = ''+''"
| "symbol (Minus left right) = ''-''"
| "symbol (Times left right) = ''*''"
| "symbol (Div left right) = ''/''"
| "symbol (Abs v) = ''@''"
| "symbol (Neg v) = ''~''"
| "symbol _ = []"

text \<open>\<open>self.__class__.__name__\<close>.\<close>

fun class_name :: "expr \<Rightarrow> string" where
  "class_name (IntConst v) = ''IntConst''"
| "class_name (Plus left right) = ''Plus''"
| "class_name (Minus left right) = ''Minus''"
| "class_name (Times left right) = ''Times''"
| "class_name (Div left right) = ''Div''"
| "class_name (Abs v) = ''Abs''"
| "class_name (Neg v) = ''Neg''"
| "class_name (Var name) = ''Var''"
| "class_name (Assign left right) = ''Assign''"

subsection \<open>Printing\<close>

text \<open>
  Python's \<open>int.__str__\<close>: the decimal digits, most significant first, after a minus
  sign for a negative number.
\<close>

definition digit_char :: "nat \<Rightarrow> char" where
  "digit_char d = ''0123456789'' ! d"

fun nat_str :: "nat \<Rightarrow> string" where
  "nat_str n =
     (if n < 10 then [digit_char n]
      else nat_str (n div 10) @ [digit_char (n mod 10)])"

declare nat_str.simps [simp del]

definition int_str :: "int \<Rightarrow> string" where
  "int_str i = (if i < 0 then CHR ''-'' # nat_str (nat (- i)) else nat_str (nat i))"

text \<open>
  \<open>__str__\<close>: \<open>IntConst.__str__\<close>, \<open>BinOp.__str__\<close>, \<open>UnOp.__str__\<close>, \<open>Var.__str__\<close> and
  \<open>Assign.__str__\<close>. An f-string formats a child node with the child's \<open>__str__\<close>.
\<close>

fun str :: "expr \<Rightarrow> string" where
  "str (IntConst v) = int_str v"
| "str (Var name) = name"
| "str (Assign left right) = ''('' @ str left @ '' = '' @ str right @ '')''"
| "str (Abs v) = ''('' @ symbol (Abs v) @ '' '' @ str v @ '')''"
| "str (Neg v) = ''('' @ symbol (Neg v) @ '' '' @ str v @ '')''"
| "str (Plus left right) =
     ''('' @ str left @ '' '' @ symbol (Plus left right) @ '' '' @ str right @ '')''"
| "str (Minus left right) =
     ''('' @ str left @ '' '' @ symbol (Minus left right) @ '' '' @ str right @ '')''"
| "str (Times left right) =
     ''('' @ str left @ '' '' @ symbol (Times left right) @ '' '' @ str right @ '')''"
| "str (Div left right) =
     ''('' @ str left @ '' '' @ symbol (Div left right) @ '' '' @ str right @ '')''"

text \<open>
  \<open>__repr__\<close>: \<open>IntConst.__repr__\<close>, \<open>BinOp.__repr__\<close>, \<open>UnOp.__repr__\<close>, \<open>Var.__repr__\<close>
  and \<open>Assign.__repr__\<close>. \<open>Var.__repr__\<close> puts the name between the parentheses as it
  is, without quotes.
\<close>

fun repr :: "expr \<Rightarrow> string" where
  "repr (IntConst v) = ''IntConst('' @ str (IntConst v) @ '')''"
| "repr (Var name) = ''Var('' @ name @ '')''"
| "repr (Assign left right) = ''Assign('' @ repr left @ '', '' @ repr right @ '')''"
| "repr (Abs v) = class_name (Abs v) @ ''('' @ repr v @ '')''"
| "repr (Neg v) = class_name (Neg v) @ ''('' @ repr v @ '')''"
| "repr (Plus left right) =
     class_name (Plus left right) @ ''('' @ repr left @ '', '' @ repr right @ '')''"
| "repr (Minus left right) =
     class_name (Minus left right) @ ''('' @ repr left @ '', '' @ repr right @ '')''"
| "repr (Times left right) =
     class_name (Times left right) @ ''('' @ repr left @ '', '' @ repr right @ '')''"
| "repr (Div left right) =
     class_name (Div left right) @ ''('' @ repr left @ '', '' @ repr right @ '')''"

subsection \<open>The environment\<close>

text \<open>
  \<open>ENV: dict[str, IntConst]\<close>, the one global environment. Evaluation reads and writes
  it, so every evaluation takes the environment it starts in and returns the one it
  leaves behind, also when it raises: a write made before the exception stays.
\<close>

type_synonym env = "string \<rightharpoonup> expr"

type_synonym comp = "env \<Rightarrow> (error + expr) \<times> env"

subsection \<open>Evaluation\<close>

text \<open>The \<open>_apply\<close> method of each operator class; \<open>//\<close> raises on a zero divisor.\<close>

definition Plus_apply :: "int \<Rightarrow> int \<Rightarrow> error + int" where
  "Plus_apply left right = Inr (left + right)"

definition Minus_apply :: "int \<Rightarrow> int \<Rightarrow> error + int" where
  "Minus_apply left right = Inr (left - right)"

definition Times_apply :: "int \<Rightarrow> int \<Rightarrow> error + int" where
  "Times_apply left right = Inr (left * right)"

definition Div_apply :: "int \<Rightarrow> int \<Rightarrow> error + int" where
  "Div_apply left right =
     (if right = 0 then Inl ZeroDivisionError else Inr (left div right))"

definition Abs_apply :: "int \<Rightarrow> int" where
  "Abs_apply v = \<bar>v\<bar>"

definition Neg_apply :: "int \<Rightarrow> int" where
  "Neg_apply v = - v"

text \<open>
  \<open>BinOp.eval\<close>, given the \<open>_apply\<close> of the node's class and the evaluation of its two
  children: the left child, then the right child in the environment the left one left
  behind, then \<open>_apply\<close> on the two \<open>value\<close> fields. An exception ends the evaluation
  where it is raised.
\<close>

definition BinOp_eval :: "(int \<Rightarrow> int \<Rightarrow> error + int) \<Rightarrow> comp \<Rightarrow> comp \<Rightarrow> comp" where
  "BinOp_eval class_apply left_eval right_eval env =
     (case left_eval env of
        (Inl e, env1) \<Rightarrow> (Inl e, env1)
      | (Inr left_val, env1) \<Rightarrow>
          (case right_eval env1 of
             (Inl e, env2) \<Rightarrow> (Inl e, env2)
           | (Inr right_val, env2) \<Rightarrow>
               (case class_apply (value_of left_val) (value_of right_val) of
                  Inl e \<Rightarrow> (Inl e, env2)
                | Inr v \<Rightarrow> (Inr (IntConst v), env2))))"

text \<open>\<open>UnOp.eval\<close>.\<close>

definition UnOp_eval :: "(int \<Rightarrow> int) \<Rightarrow> comp \<Rightarrow> comp" where
  "UnOp_eval class_apply value_eval env =
     (case value_eval env of
        (Inl e, env1) \<Rightarrow> (Inl e, env1)
      | (Inr left_val, env1) \<Rightarrow> (Inr (IntConst (class_apply (value_of left_val))), env1))"

text \<open>\<open>Var.eval\<close>.\<close>

definition Var_eval :: "string \<Rightarrow> comp" where
  "Var_eval name env =
     (case env name of
        Some v \<Rightarrow> (Inr v, env)
      | None \<Rightarrow> (Inl (UndefinedVariable (name @ '' has not been assigned a value'')), env))"

text \<open>
  \<open>left.assign(value)\<close> for the left operand of an \<open>Assign\<close>: \<open>Var.assign\<close> when it is a
  \<open>Var\<close>; no other class has the method.
\<close>

definition assign :: "expr \<Rightarrow> expr \<Rightarrow> env \<Rightarrow> error + env" where
  "assign left v env =
     (case left of
        Var name \<Rightarrow> Inr (env(name \<mapsto> v))
      | _ \<Rightarrow> Inl AttributeError)"

text \<open>\<open>Assign.eval\<close>, given the evaluation of the right operand.\<close>

definition Assign_eval :: "expr \<Rightarrow> comp \<Rightarrow> comp" where
  "Assign_eval left right_eval env =
     (case right_eval env of
        (Inl e, env1) \<Rightarrow> (Inl e, env1)
      | (Inr r_val, env1) \<Rightarrow>
          (case assign left r_val env1 of
             Inl e \<Rightarrow> (Inl e, env1)
           | Inr env2 \<Rightarrow> (Inr r_val, env2)))"

text \<open>\<open>eval\<close>, dispatched on the class of the node.\<close>

primrec eval :: "expr \<Rightarrow> comp" where
  "eval (IntConst v) = (\<lambda>env. (Inr (IntConst v), env))"
| "eval (Plus left right) = BinOp_eval Plus_apply (eval left) (eval right)"
| "eval (Minus left right) = BinOp_eval Minus_apply (eval left) (eval right)"
| "eval (Times left right) = BinOp_eval Times_apply (eval left) (eval right)"
| "eval (Div left right) = BinOp_eval Div_apply (eval left) (eval right)"
| "eval (Abs v) = UnOp_eval Abs_apply (eval v)"
| "eval (Neg v) = UnOp_eval Neg_apply (eval v)"
| "eval (Var name) = Var_eval name"
| "eval (Assign left right) = Assign_eval left (eval right)"

subsection \<open>Notions used to state the properties\<close>

text \<open>
  The tag of a debug form: the text in front of its first opening parenthesis.
\<close>

definition tag :: "string \<Rightarrow> string" where
  "tag s = takeWhile (\<lambda>c. c \<noteq> CHR ''('') s"

text \<open>
  A tree is well formed when the left operand of every \<open>Assign\<close> node in it is a
  \<open>Var\<close>.
\<close>

fun well_formed :: "expr \<Rightarrow> bool" where
  "well_formed (IntConst v) = True"
| "well_formed (Var name) = True"
| "well_formed (Plus left right) = (well_formed left \<and> well_formed right)"
| "well_formed (Minus left right) = (well_formed left \<and> well_formed right)"
| "well_formed (Times left right) = (well_formed left \<and> well_formed right)"
| "well_formed (Div left right) = (well_formed left \<and> well_formed right)"
| "well_formed (Abs v) = well_formed v"
| "well_formed (Neg v) = well_formed v"
| "well_formed (Assign left right) =
     ((case left of Var name \<Rightarrow> True | _ \<Rightarrow> False) \<and> well_formed right)"

text \<open>The names that the \<open>Assign\<close> nodes of a tree assign to.\<close>

fun assigned :: "expr \<Rightarrow> string set" where
  "assigned (IntConst v) = {}"
| "assigned (Var name) = {}"
| "assigned (Plus left right) = assigned left \<union> assigned right"
| "assigned (Minus left right) = assigned left \<union> assigned right"
| "assigned (Times left right) = assigned left \<union> assigned right"
| "assigned (Div left right) = assigned left \<union> assigned right"
| "assigned (Abs v) = assigned v"
| "assigned (Neg v) = assigned v"
| "assigned (Assign left right) =
     (case left of Var name \<Rightarrow> {name} | _ \<Rightarrow> {}) \<union> assigned right"

section \<open>Properties\<close>

subsection \<open>What an evaluation leaves in the environment\<close>

text \<open>
  An evaluation changes the environment only at the names that its \<open>Assign\<close> nodes
  assign to, whether it returns or raises.
\<close>

lemma BinOp_eval_keeps:
  assumes "\<And>env. snd (l env) n = env n" and "\<And>env. snd (r env) n = env n"
  shows "snd (BinOp_eval f l r env) n = env n"
proof -
  obtain a env1 where L: "l env = (a, env1)" by (cases "l env")
  obtain b env2 where R: "r env1 = (b, env2)" by (cases "r env1")
  have "env1 n = env n" using assms(1) [of env] L by simp
  moreover have "env2 n = env1 n" using assms(2) [of env1] R by simp
  ultimately show ?thesis using L R by (simp add: BinOp_eval_def split: sum.splits)
qed

lemma UnOp_eval_keeps:
  assumes "\<And>env. snd (c env) n = env n"
  shows "snd (UnOp_eval f c env) n = env n"
proof -
  obtain a env1 where C: "c env = (a, env1)" by (cases "c env")
  have "env1 n = env n" using assms [of env] C by simp
  then show ?thesis using C by (simp add: UnOp_eval_def split: sum.splits)
qed

lemma Assign_eval_keeps:
  assumes "\<And>env. snd (c env) n = env n" and "\<forall>name. left = Var name \<longrightarrow> name \<noteq> n"
  shows "snd (Assign_eval left c env) n = env n"
proof -
  obtain a env1 where C: "c env = (a, env1)" by (cases "c env")
  have "env1 n = env n" using assms(1) [of env] C by simp
  then show ?thesis using C assms(2)
    by (cases left) (auto simp: Assign_eval_def assign_def split: sum.splits)
qed

lemma eval_keeps_unassigned:
  "n \<notin> assigned e \<Longrightarrow> snd (eval e env) n = env n"
proof (induction e arbitrary: env)
  case (Assign left right)
  then show ?case by (auto intro!: Assign_eval_keeps)
qed (simp_all add: BinOp_eval_keeps UnOp_eval_keeps Var_eval_def split: option.splits)

lemma eval_no_assignment:
  assumes "assigned e = {}"
  shows "snd (eval e env) = env"
proof
  fix n
  show "snd (eval e env) n = env n" using assms by (simp add: eval_keeps_unassigned)
qed

subsection \<open>Evaluation returns integer constants\<close>

text \<open>
  \<open>BinOp.eval\<close> and \<open>UnOp.eval\<close> read the field \<open>value\<close> of what their children
  return. That is sound: as long as the environment holds \<open>IntConst\<close> objects only, as
  its declaration says, every evaluation returns an \<open>IntConst\<close> or raises, and leaves
  such an environment behind.
\<close>

lemma BinOp_eval_IntConst:
  assumes "\<And>env res env1. ran env \<subseteq> range IntConst \<Longrightarrow> l env = (res, env1) \<Longrightarrow>
             ran env1 \<subseteq> range IntConst"
    and "\<And>env res env1. ran env \<subseteq> range IntConst \<Longrightarrow> r env = (res, env1) \<Longrightarrow>
             ran env1 \<subseteq> range IntConst"
    and "ran env \<subseteq> range IntConst" and "BinOp_eval f l r env = (res, env')"
  shows "ran env' \<subseteq> range IntConst \<and> (\<forall>x. res = Inr x \<longrightarrow> x \<in> range IntConst)"
proof -
  obtain a env1 where L: "l env = (a, env1)" by (cases "l env")
  obtain b env2 where R: "r env1 = (b, env2)" by (cases "r env1")
  have 1: "ran env1 \<subseteq> range IntConst" using assms(1) [OF assms(3) L] .
  have 2: "ran env2 \<subseteq> range IntConst" using assms(2) [OF 1 R] .
  show ?thesis using assms(4) L R 1 2
    by (auto simp: BinOp_eval_def split: sum.splits)
qed

lemma eval_IntConst:
  "ran env \<subseteq> range IntConst \<Longrightarrow> eval e env = (res, env1) \<Longrightarrow>
   ran env1 \<subseteq> range IntConst \<and> (\<forall>x. res = Inr x \<longrightarrow> x \<in> range IntConst)"
proof (induction e arbitrary: env res env1)
  case (IntConst v)
  then show ?case by auto
next
  case (Plus e1 e2)
  from Plus.prems show ?case
    by (simp, intro BinOp_eval_IntConst [where l = "eval e1" and r = "eval e2"])
       (use Plus.IH in blast)+
next
  case (Minus e1 e2)
  from Minus.prems show ?case
    by (simp, intro BinOp_eval_IntConst [where l = "eval e1" and r = "eval e2"])
       (use Minus.IH in blast)+
next
  case (Times e1 e2)
  from Times.prems show ?case
    by (simp, intro BinOp_eval_IntConst [where l = "eval e1" and r = "eval e2"])
       (use Times.IH in blast)+
next
  case (Div e1 e2)
  from Div.prems show ?case
    by (simp, intro BinOp_eval_IntConst [where l = "eval e1" and r = "eval e2"])
       (use Div.IH in blast)+
next
  case (Abs e)
  obtain a env2 where C: "eval e env = (a, env2)" by (cases "eval e env")
  from Abs.IH [OF Abs.prems(1) C] Abs.prems(2) C show ?case
    by (auto simp: UnOp_eval_def split: sum.splits)
next
  case (Neg e)
  obtain a env2 where C: "eval e env = (a, env2)" by (cases "eval e env")
  from Neg.IH [OF Neg.prems(1) C] Neg.prems(2) C show ?case
    by (auto simp: UnOp_eval_def split: sum.splits)
next
  case (Var name)
  then show ?case by (auto simp: Var_eval_def ran_def split: option.splits)
next
  case (Assign left right)
  obtain a env2 where C: "eval right env = (a, env2)" by (cases "eval right env")
  have *: "ran env2 \<subseteq> range IntConst \<and> (\<forall>x. a = Inr x \<longrightarrow> x \<in> range IntConst)"
    using Assign.IH(2) [OF Assign.prems(1) C] .
  have upd: "ran (env2(n \<mapsto> IntConst i)) \<subseteq> range IntConst" for n i
    using * by (auto simp: ran_def)
  from * Assign.prems(2) C upd show ?case
    by (cases left) (auto simp: Assign_eval_def assign_def split: sum.splits)
qed

subsection \<open>Arithmetic\<close>

text \<open>
  C1. For every integer \<open>a\<close>, evaluating \<open>Div(IntConst(a), IntConst(0))\<close> raises
  \<open>ZeroDivisionError\<close> (DivisionByZeroError in the specification), in any environment
  and without changing it. More generally \<open>Div\<close> raises it whenever its left operand
  evaluates and its right operand then evaluates to zero. The exception is a kind of its
  own, different from \<open>UndefinedVariable\<close> and from \<open>AssertionError\<close>.
\<close>

theorem Div_zero_divisor:
  "eval (Div (IntConst a) (IntConst 0)) env = (Inl ZeroDivisionError, env) \<and>
   (eval left env = (Inr left_val, env1) \<and> eval right env1 = (Inr (IntConst 0), env2)
      \<longrightarrow> eval (Div left right) env = (Inl ZeroDivisionError, env2)) \<and>
   ZeroDivisionError \<noteq> UndefinedVariable msg \<and>
   ZeroDivisionError \<noteq> AssertionError"
  by (simp add: BinOp_eval_def Div_apply_def)

theorem Div_zero_divisor_witness:
  "eval (IntConst 7) Map.empty = (Inr (IntConst 7), Map.empty) \<and>
   eval (Minus (IntConst 3) (IntConst 3)) Map.empty = (Inr (IntConst 0), Map.empty) \<and>
   eval (Div (IntConst 7) (Minus (IntConst 3) (IntConst 3))) Map.empty
     = (Inl ZeroDivisionError, Map.empty)"
  using Div_zero_divisor [of 7 Map.empty "IntConst 7" "IntConst 7" Map.empty
      "Minus (IntConst 3) (IntConst 3)" Map.empty]
  by (simp add: BinOp_eval_def Minus_apply_def)

text \<open>
  C2. For all integers \<open>a\<close> and \<open>b\<close> with \<open>b \<noteq> 0\<close>, evaluating
  \<open>Div(IntConst(a), IntConst(b))\<close> returns \<open>IntConst\<close> of the floor of the rational
  quotient \<open>a / b\<close>: the division rounds toward negative infinity. At \<open>-7\<close> and \<open>2\<close> it
  gives \<open>-4\<close>, where truncation toward zero would give \<open>-3\<close>.
\<close>

theorem Div_floor:
  "b \<noteq> 0 \<Longrightarrow>
   eval (Div (IntConst a) (IntConst b)) env
     = (Inr (IntConst \<lfloor>real_of_int a / real_of_int b\<rfloor>), env)"
  by (simp add: BinOp_eval_def Div_apply_def floor_divide_of_int_eq)

theorem Div_floor_witness:
  "(2::int) \<noteq> 0 \<and>
   \<lfloor>real_of_int (- 7) / real_of_int 2\<rfloor> = (- 4 :: int) \<and>
   eval (Div (IntConst (- 7)) (IntConst 2)) Map.empty = (Inr (IntConst (- 4)), Map.empty)"
proof -
  have nz: "(2::int) \<noteq> 0" by simp
  have fl: "\<lfloor>real_of_int (- 7) / real_of_int 2\<rfloor> = (- 4 :: int)"
    by (simp add: floor_divide_of_int_eq [of "- 7" 2, simplified])
  show ?thesis using Div_floor [OF nz, of "- 7" Map.empty] fl by simp
qed

text \<open>
  C6. For all integers \<open>a\<close> and \<open>b\<close>, in any environment: \<open>Plus\<close>, \<open>Minus\<close> and \<open>Times\<close>
  of \<open>IntConst(a)\<close> and \<open>IntConst(b)\<close> evaluate to \<open>IntConst\<close> of the sum, the difference
  and the product; \<open>Abs\<close> and \<open>Neg\<close> of \<open>IntConst(a)\<close> evaluate to \<open>IntConst\<close> of the
  absolute value and of the negation. None of them changes the environment.
\<close>

theorem operators_on_constants:
  "eval (Plus (IntConst a) (IntConst b)) env = (Inr (IntConst (a + b)), env) \<and>
   eval (Minus (IntConst a) (IntConst b)) env = (Inr (IntConst (a - b)), env) \<and>
   eval (Times (IntConst a) (IntConst b)) env = (Inr (IntConst (a * b)), env) \<and>
   eval (Abs (IntConst a)) env = (Inr (IntConst \<bar>a\<bar>), env) \<and>
   eval (Neg (IntConst a)) env = (Inr (IntConst (- a)), env)"
  by (simp add: BinOp_eval_def UnOp_eval_def Plus_apply_def Minus_apply_def
      Times_apply_def Abs_apply_def Neg_apply_def)

subsection \<open>Variables and assignment\<close>

text \<open>
  C3. Building an \<open>Assign\<close> whose left operand is not a \<open>Var\<close> (an \<open>IntConst\<close>, any
  operator node, another \<open>Assign\<close>) fails in the constructor with \<open>AssertionError\<close>
  (InvalidAssignmentTargetError in the specification), for every right operand; with a
  \<open>Var\<close> on the left the constructor succeeds and stores both operands. So whatever
  the constructor returns has a \<open>Var\<close> on the left, and is well formed when the right
  operand is.
\<close>

theorem Assign_init_target:
  "((\<forall>name. left \<noteq> Var name) \<longrightarrow> Assign_init left right = Inl AssertionError) \<and>
   Assign_init (Var n) right = Inr (Assign (Var n) right) \<and>
   (Assign_init left right = Inr node
      \<longrightarrow> (\<exists>name. left = Var name) \<and> node = Assign left right \<and>
          (well_formed right \<longrightarrow> well_formed node))"
  by (cases left) (auto simp: Assign_init_def)

theorem Assign_init_target_witness:
  "Assign_init (IntConst 1) (IntConst 2) = Inl AssertionError \<and>
   Assign_init (Plus (Var ''x'') (IntConst 1)) (IntConst 2) = Inl AssertionError \<and>
   Assign_init (Var ''x'') (IntConst 2) = Inr (Assign (Var ''x'') (IntConst 2)) \<and>
   well_formed (Assign (Var ''x'') (IntConst 2))"
  using Assign_init_target [of "IntConst 1" "IntConst 2" "''x''" "Assign (Var ''x'') (IntConst 2)"]
    Assign_init_target [of "Plus (Var ''x'') (IntConst 1)" "IntConst 2" "''x''" "Assign (Var ''x'') (IntConst 2)"]
    Assign_init_target [of "Var ''x''" "IntConst 2" "''x''" "Assign (Var ''x'') (IntConst 2)"]
  by simp

text \<open>
  C4. For every name \<open>n\<close> and every expression \<open>e\<close> whose evaluation returns
  \<open>IntConst(v)\<close>, evaluating \<open>Assign(Var(n), e)\<close> returns \<open>IntConst(v)\<close> and leaves the
  environment that \<open>e\<close> left, with \<open>IntConst(v)\<close> stored under \<open>n\<close>. \<open>Var(n)\<close> evaluated
  next returns \<open>IntConst(v)\<close>, and still does after any sequence of evaluations none of
  which assigns to \<open>n\<close>.
\<close>

theorem Assign_stores:
  "eval e env = (Inr (IntConst v), env1) \<Longrightarrow>
   eval (Assign (Var n) e) env = (Inr (IntConst v), env1(n \<mapsto> IntConst v)) \<and>
   eval (Var n) (env1(n \<mapsto> IntConst v)) = (Inr (IntConst v), env1(n \<mapsto> IntConst v)) \<and>
   ((\<forall>e' \<in> set es. n \<notin> assigned e') \<longrightarrow>
      fst (eval (Var n) (fold (\<lambda>e' env'. snd (eval e' env')) es (env1(n \<mapsto> IntConst v))))
        = Inr (IntConst v))"
proof -
  assume ev: "eval e env = (Inr (IntConst v), env1)"
  have keep: "(\<forall>e' \<in> set es. n \<notin> assigned e') \<Longrightarrow>
      fold (\<lambda>e' env'. snd (eval e' env')) es env0 n = env0 n" for env0
    by (induction es arbitrary: env0) (simp_all add: eval_keeps_unassigned)
  show ?thesis using ev keep [of "env1(n \<mapsto> IntConst v)"]
    by (auto simp: Assign_eval_def assign_def Var_eval_def)
qed

theorem Assign_stores_witness:
  "eval (IntConst 7) Map.empty = (Inr (IntConst 7), Map.empty) \<and>
   eval (Assign (Var ''x'') (IntConst 7)) Map.empty = (Inr (IntConst 7), [''x'' \<mapsto> IntConst 7]) \<and>
   eval (Var ''x'') [''x'' \<mapsto> IntConst 7] = (Inr (IntConst 7), [''x'' \<mapsto> IntConst 7]) \<and>
   fst (eval (Var ''x'')
          (fold (\<lambda>e' env'. snd (eval e' env'))
             [Assign (Var ''y'') (Plus (Var ''x'') (IntConst 1)), Neg (Var ''z'')]
             [''x'' \<mapsto> IntConst 7]))
     = Inr (IntConst 7)"
proof -
  have ev: "eval (IntConst 7) Map.empty = (Inr (IntConst 7), Map.empty)" by simp
  have na: "\<forall>e' \<in> set [Assign (Var ''y'') (Plus (Var ''x'') (IntConst 1)), Neg (Var ''z'')].
      ''x'' \<notin> assigned e'" by simp
  show ?thesis
    using Assign_stores [OF ev, of "''x''"
        "[Assign (Var ''y'') (Plus (Var ''x'') (IntConst 1)), Neg (Var ''z'')]"] na ev
    by simp
qed

text \<open>
  C5. For every name \<open>n\<close> with no entry in the environment, in particular in the empty
  environment, evaluating \<open>Var(n)\<close> raises \<open>UndefinedVariable\<close> (UndefinedVariableError
  in the specification) and leaves the environment as it is; with an entry, it returns
  the stored value. Nothing catches the exception: a node whose child raises, raises the
  same exception, and a binary node does so as well when its left child returns and its
  right child raises.
\<close>

theorem Var_eval_undefined:
  "(env n = None \<longrightarrow>
      eval (Var n) env = (Inl (UndefinedVariable (n @ '' has not been assigned a value'')), env)) \<and>
   (env n = Some v \<longrightarrow> eval (Var n) env = (Inr v, env)) \<and>
   (\<exists>msg. eval (Var n) Map.empty = (Inl (UndefinedVariable msg), Map.empty)) \<and>
   (eval c env = (Inl err, env1) \<longrightarrow>
      eval (Abs c) env = (Inl err, env1) \<and> eval (Neg c) env = (Inl err, env1) \<and>
      eval (Assign target c) env = (Inl err, env1) \<and>
      eval (Plus c right) env = (Inl err, env1) \<and> eval (Minus c right) env = (Inl err, env1) \<and>
      eval (Times c right) env = (Inl err, env1) \<and> eval (Div c right) env = (Inl err, env1)) \<and>
   (eval left env = (Inr left_val, env1) \<and> eval c env1 = (Inl err, env2) \<longrightarrow>
      eval (Plus left c) env = (Inl err, env2) \<and> eval (Minus left c) env = (Inl err, env2) \<and>
      eval (Times left c) env = (Inl err, env2) \<and> eval (Div left c) env = (Inl err, env2))"
  by (simp add: Var_eval_def BinOp_eval_def UnOp_eval_def Assign_eval_def)

theorem Var_eval_undefined_witness:
  "eval (Var ''x'') Map.empty
     = (Inl (UndefinedVariable ''x has not been assigned a value''), Map.empty) \<and>
   eval (Var ''x'') [''x'' \<mapsto> IntConst 7] = (Inr (IntConst 7), [''x'' \<mapsto> IntConst 7]) \<and>
   eval (Neg (Var ''x'')) Map.empty
     = (Inl (UndefinedVariable ''x has not been assigned a value''), Map.empty) \<and>
   eval (Plus (IntConst 1) (Var ''x'')) Map.empty
     = (Inl (UndefinedVariable ''x has not been assigned a value''), Map.empty)"
  using Var_eval_undefined [where env = Map.empty and n = "''x''" and c = "Var ''x''"
      and err = "UndefinedVariable ''x has not been assigned a value''" and ?env1.0 = Map.empty
      and left = "IntConst 1" and left_val = "IntConst 1" and ?env2.0 = Map.empty]
    Var_eval_undefined [where env = "[''x'' \<mapsto> IntConst 7]" and n = "''x''"
      and v = "IntConst 7"]
  by (simp add: Var_eval_def)

text \<open>
  C9, as stated: whenever the evaluation of the right operand of an \<open>Assign\<close> raises, the
  environment is left completely unchanged. That fails when the right operand holds an
  assignment of its own that is carried out before the exception: from the empty
  environment, \<open>Assign(Var("x"), Plus(Assign(Var("y"), IntConst(1)), Var("z")))\<close> raises
  \<open>UndefinedVariable\<close> for \<open>z\<close> and leaves \<open>y\<close> bound to \<open>IntConst(1)\<close>.
\<close>

theorem Assign_unchanged_counterexample:
  "eval (Plus (Assign (Var ''y'') (IntConst 1)) (Var ''z'')) Map.empty
     = (Inl (UndefinedVariable ''z has not been assigned a value''), [''y'' \<mapsto> IntConst 1]) \<and>
   eval (Assign (Var ''x'') (Plus (Assign (Var ''y'') (IntConst 1)) (Var ''z''))) Map.empty
     = (Inl (UndefinedVariable ''z has not been assigned a value''), [''y'' \<mapsto> IntConst 1]) \<and>
   [''y'' \<mapsto> IntConst 1] \<noteq> (Map.empty :: env)"
  by (simp add: Var_eval_def BinOp_eval_def Assign_eval_def assign_def)

text \<open>
  C9, amended. Whenever the evaluation of the right operand of an \<open>Assign\<close> raises, the
  \<open>Assign\<close> raises the same exception and writes nothing itself: the environment is
  left as the right operand's evaluation left it. That environment differs from the
  starting one at most at names assigned by \<open>Assign\<close> nodes inside the right operand,
  and is the starting one when the right operand holds no assignment. The write to the
  left variable's name happens only after the right operand has returned.
\<close>

theorem Assign_failure_environment:
  "eval right env = (Inl err, env1) \<Longrightarrow>
   eval (Assign left right) env = (Inl err, env1) \<and>
   (\<forall>n. n \<notin> assigned right \<longrightarrow> env1 n = env n) \<and>
   (assigned right = {} \<longrightarrow> env1 = env)"
proof -
  assume ev: "eval right env = (Inl err, env1)"
  have "snd (eval right env) n = env n" if "n \<notin> assigned right" for n
    using that by (rule eval_keeps_unassigned)
  moreover have "snd (eval right env) = env" if "assigned right = {}"
    using that by (rule eval_no_assignment)
  ultimately show ?thesis using ev by (simp add: Assign_eval_def)
qed

theorem Assign_failure_environment_witness:
  "eval (Div (IntConst 1) (IntConst 0)) [''x'' \<mapsto> IntConst 5]
     = (Inl ZeroDivisionError, [''x'' \<mapsto> IntConst 5]) \<and>
   eval (Assign (Var ''x'') (Div (IntConst 1) (IntConst 0))) [''x'' \<mapsto> IntConst 5]
     = (Inl ZeroDivisionError, [''x'' \<mapsto> IntConst 5]) \<and>
   assigned (Div (IntConst 1) (IntConst 0)) = {}"
proof -
  have ev: "eval (Div (IntConst 1) (IntConst 0)) [''x'' \<mapsto> IntConst 5]
     = (Inl ZeroDivisionError, [''x'' \<mapsto> IntConst 5])"
    by (simp add: BinOp_eval_def Div_apply_def)
  show ?thesis using Assign_failure_environment [OF ev, of "Var ''x''"] ev by simp
qed

subsection \<open>Order of evaluation\<close>

text \<open>
  C10. A binary node evaluates its left child first and its right child second. When
  the left child raises, the node raises the same exception and the right child is not
  evaluated. When the left child returns, the right child is evaluated in the
  environment that the left child left behind, and the node leaves the environment that
  the right child leaves. From the empty environment
  \<open>Plus(Assign(Var("x"), IntConst(1)), Var("x"))\<close> therefore returns \<open>IntConst(2)\<close>, while
  \<open>Plus(Var("x"), Assign(Var("x"), IntConst(1)))\<close> raises \<open>UndefinedVariable\<close> and
  assigns nothing.
\<close>

theorem BinOp_left_then_right:
  "op \<in> {Plus, Minus, Times, Div} \<Longrightarrow>
   (eval left env = (Inl err, env1) \<longrightarrow> eval (op left right) env = (Inl err, env1)) \<and>
   (eval left env = (Inr left_val, env1) \<longrightarrow>
      snd (eval (op left right) env) = snd (eval right env1) \<and>
      (\<forall>err. fst (eval right env1) = Inl err \<longrightarrow> fst (eval (op left right) env) = Inl err)) \<and>
   eval (Plus (Assign (Var ''x'') (IntConst 1)) (Var ''x'')) Map.empty
     = (Inr (IntConst 2), [''x'' \<mapsto> IntConst 1]) \<and>
   eval (Plus (Var ''x'') (Assign (Var ''x'') (IntConst 1))) Map.empty
     = (Inl (UndefinedVariable ''x has not been assigned a value''), Map.empty)"
  by (auto simp: BinOp_eval_def Var_eval_def Assign_eval_def assign_def Plus_apply_def
      split: prod.splits sum.splits)

theorem BinOp_left_then_right_witness:
  "Times \<in> {Plus, Minus, Times, Div} \<and>
   eval (Assign (Var ''x'') (IntConst 3)) Map.empty = (Inr (IntConst 3), [''x'' \<mapsto> IntConst 3]) \<and>
   snd (eval (Times (Assign (Var ''x'') (IntConst 3)) (Assign (Var ''y'') (Var ''x''))) Map.empty)
     = snd (eval (Assign (Var ''y'') (Var ''x'')) [''x'' \<mapsto> IntConst 3]) \<and>
   eval (Plus (Assign (Var ''x'') (IntConst 1)) (Var ''x'')) Map.empty
     = (Inr (IntConst 2), [''x'' \<mapsto> IntConst 1])"
proof -
  have mem: "Times \<in> {Plus, Minus, Times, Div}" by simp
  have ev: "eval (Assign (Var ''x'') (IntConst 3)) Map.empty
      = (Inr (IntConst 3), [''x'' \<mapsto> IntConst 3])"
    by (simp add: Assign_eval_def assign_def)
  show ?thesis
    using BinOp_left_then_right [OF mem, where left = "Assign (Var ''x'') (IntConst 3)"
        and env = Map.empty and left_val = "IntConst 3" and ?env1.0 = "[''x'' \<mapsto> IntConst 3]"
        and right = "Assign (Var ''y'') (Var ''x'')"] mem ev
    by (simp add: BinOp_eval_def Assign_eval_def assign_def Var_eval_def Times_apply_def
        Plus_apply_def)
qed

subsection \<open>Printing\<close>

lemma int_str_5: "int_str 5 = ''5''"
  by (simp add: int_str_def nat_str.simps digit_char_def)

lemma int_str_4: "int_str 4 = ''4''"
  by (simp add: int_str_def nat_str.simps digit_char_def)

lemma int_str_examples:
  "int_str 0 = ''0'' \<and> int_str (- 12) = ''-12'' \<and> int_str 1234567890 = ''1234567890''"
  by (simp add: int_str_def nat_str.simps digit_char_def)

lemma tag_repr: "tag (repr e) = class_name e"
  by (cases e) (simp_all add: tag_def)

text \<open>
  C7. \<open>__str__\<close> gives the decimal numeral for a constant, the name for a variable,
  \<open>(left = right)\<close> for an assignment, \<open>(left symbol right)\<close> for a binary operator and
  \<open>(symbol value)\<close> for a unary operator, with the children printed the same way. For
  \<open>Plus(IntConst(5), IntConst(4))\<close> it is exactly \<open>(5 + 4)\<close> and for \<open>Neg(IntConst(5))\<close>
  exactly \<open>(~ 5)\<close>.
\<close>

theorem str_forms:
  "str (IntConst v) = int_str v \<and>
   str (Var name) = name \<and>
   str (Assign left right) = ''('' @ str left @ '' = '' @ str right @ '')'' \<and>
   str (Assign (Var name) right) = ''('' @ name @ '' = '' @ str right @ '')'' \<and>
   str (Plus left right) = ''('' @ str left @ '' + '' @ str right @ '')'' \<and>
   str (Minus left right) = ''('' @ str left @ '' - '' @ str right @ '')'' \<and>
   str (Times left right) = ''('' @ str left @ '' * '' @ str right @ '')'' \<and>
   str (Div left right) = ''('' @ str left @ '' / '' @ str right @ '')'' \<and>
   str (Abs e) = ''(@ '' @ str e @ '')'' \<and>
   str (Neg e) = ''(~ '' @ str e @ '')'' \<and>
   str (Plus (IntConst 5) (IntConst 4)) = ''(5 + 4)'' \<and>
   str (Neg (IntConst 5)) = ''(~ 5)'' \<and>
   str (IntConst 0) = ''0'' \<and>
   str (IntConst (- 12)) = ''-12'' \<and>
   str (IntConst 1234567890) = ''1234567890''"
  by (simp add: int_str_5 int_str_4 int_str_examples)

text \<open>
  C8. \<open>__repr__\<close> gives the class name of the node followed by the debug forms of its
  children in parentheses. The tag of a debug form is the class name of its node, and
  each of the nine tags belongs to one class only, so the tag tells the variant. For
  \<open>Plus(IntConst(5), IntConst(4))\<close> the debug form is exactly
  \<open>Plus(IntConst(5), IntConst(4))\<close>.
\<close>

theorem repr_forms:
  "repr (IntConst v) = ''IntConst('' @ int_str v @ '')'' \<and>
   repr (Var name) = ''Var('' @ name @ '')'' \<and>
   repr (Assign left right) = ''Assign('' @ repr left @ '', '' @ repr right @ '')'' \<and>
   repr (Plus left right) = ''Plus('' @ repr left @ '', '' @ repr right @ '')'' \<and>
   repr (Minus left right) = ''Minus('' @ repr left @ '', '' @ repr right @ '')'' \<and>
   repr (Times left right) = ''Times('' @ repr left @ '', '' @ repr right @ '')'' \<and>
   repr (Div left right) = ''Div('' @ repr left @ '', '' @ repr right @ '')'' \<and>
   repr (Abs e) = ''Abs('' @ repr e @ '')'' \<and>
   repr (Neg e) = ''Neg('' @ repr e @ '')'' \<and>
   tag (repr x) = class_name x \<and>
   (tag (repr x) = ''IntConst'') = (\<exists>v. x = IntConst v) \<and>
   (tag (repr x) = ''Var'') = (\<exists>name. x = Var name) \<and>
   (tag (repr x) = ''Assign'') = (\<exists>l r. x = Assign l r) \<and>
   (tag (repr x) = ''Plus'') = (\<exists>l r. x = Plus l r) \<and>
   (tag (repr x) = ''Minus'') = (\<exists>l r. x = Minus l r) \<and>
   (tag (repr x) = ''Times'') = (\<exists>l r. x = Times l r) \<and>
   (tag (repr x) = ''Div'') = (\<exists>l r. x = Div l r) \<and>
   (tag (repr x) = ''Abs'') = (\<exists>c. x = Abs c) \<and>
   (tag (repr x) = ''Neg'') = (\<exists>c. x = Neg c) \<and>
   repr (Plus (IntConst 5) (IntConst 4)) = ''Plus(IntConst(5), IntConst(4))''"
  unfolding tag_repr by (cases x) (simp_all add: int_str_5 int_str_4)

end
